theory Spec2Isabelle
  imports Complex_Main "HOL-Library.Word"
begin

section \<open>JavaScript strings and values\<close>

text \<open>
  A JavaScript string is a sequence of UTF-16 code units; the body of the backend response
  arrives as chunks of bytes (\<^verbatim>\<open>Uint8Array\<close>). String literals of the source are written
  with \<open>js\<close>, byte strings with \<open>bytes\<close>.
\<close>

type_synonym code_unit = "16 word"
type_synonym jsstring = "code_unit list"
type_synonym byte = "8 word"

definition js :: "string \<Rightarrow> jsstring" where
  "js s = map of_char s"

definition bytes :: "string \<Rightarrow> byte list" where
  "bytes s = map of_char s"

text \<open>
  The values \<^verbatim>\<open>JSON.parse\<close> and \<^verbatim>\<open>response.json()\<close> produce, and \<^verbatim>\<open>undefined\<close>. An
  object is the association list of its own properties (the first binding of a key is its
  value); the object literals the source builds are written the same way, in the order of
  the source. A number is its rational value (negative zero is zero; the infinities, which
  only an overflowing literal yields, are not represented): the program does no arithmetic
  on the numbers it receives, it tests them for truthiness and passes them on.
\<close>

datatype jsval =
    JUndefined
  | JNull
  | JBool bool
  | JNum rat
  | JStr jsstring
  | JArr "jsval list"
  | JObj "(jsstring \<times> jsval) list"

datatype js_error = SyntaxError | TypeError

fun truthy :: "jsval \<Rightarrow> bool" where
  "truthy JUndefined = False"
| "truthy JNull = False"
| "truthy (JBool b) = b"
| "truthy (JNum n) = (n \<noteq> 0)"
| "truthy (JStr s) = (s \<noteq> [])"
| "truthy (JArr xs) = True"
| "truthy (JObj kvs) = True"

fun nullish :: "jsval \<Rightarrow> bool" where
  "nullish JUndefined = True"
| "nullish JNull = True"
| "nullish v = False"

text \<open>\<^verbatim>\<open>a || b\<close>\<close>

definition js_or :: "jsval \<Rightarrow> jsval \<Rightarrow> jsval" where
  "js_or a b = (if truthy a then a else b)"

text \<open>Decimal digits of a natural number: \<^verbatim>\<open>String(n)\<close> for a non-negative integer.\<close>

function decimal :: "nat \<Rightarrow> jsstring" where
  "decimal n = (if n < 10 then [of_nat (48 + n)]
                else decimal (n div 10) @ [of_nat (48 + n mod 10)])"
  by pat_completeness auto
termination
  by (relation "measure (\<lambda>n. n)") auto

declare decimal.simps [simp del]

text \<open>
  \<^verbatim>\<open>v.name\<close> and \<^verbatim>\<open>v[i]\<close> on a value that is neither \<^verbatim>\<open>null\<close> nor \<^verbatim>\<open>undefined\<close>
  (on those the access throws, which the callers below write out). The names this program
  reads (\<^verbatim>\<open>candidates\<close>, \<^verbatim>\<open>content\<close>, \<^verbatim>\<open>parts\<close>, \<^verbatim>\<open>text\<close>, \<^verbatim>\<open>error\<close>, \<^verbatim>\<open>message\<close>,
  \<^verbatim>\<open>code\<close>, \<^verbatim>\<open>messages\<close>, \<^verbatim>\<open>model\<close>, \<^verbatim>\<open>stream\<close>, \<^verbatim>\<open>temperature\<close>) are not members of a
  built-in prototype, so on an array, a string, a number or a boolean they read
  \<^verbatim>\<open>undefined\<close>.
\<close>

fun get_prop :: "jsval \<Rightarrow> jsstring \<Rightarrow> jsval" where
  "get_prop (JObj kvs) name = (case map_of kvs name of Some v \<Rightarrow> v | None \<Rightarrow> JUndefined)"
| "get_prop v name = JUndefined"

fun get_index :: "jsval \<Rightarrow> nat \<Rightarrow> jsval" where
  "get_index (JArr xs) i = (if i < length xs then xs ! i else JUndefined)"
| "get_index (JStr s) i = (if i < length s then JStr [s ! i] else JUndefined)"
| "get_index (JObj kvs) i = (case map_of kvs (decimal i) of Some v \<Rightarrow> v | None \<Rightarrow> JUndefined)"
| "get_index v i = JUndefined"

text \<open>Optional chaining: \<^verbatim>\<open>v?.name\<close> and \<^verbatim>\<open>v?.[i]\<close>.\<close>

definition opt_prop :: "jsval \<Rightarrow> jsstring \<Rightarrow> jsval" where
  "opt_prop v name = (if nullish v then JUndefined else get_prop v name)"

definition opt_index :: "jsval \<Rightarrow> nat \<Rightarrow> jsval" where
  "opt_index v i = (if nullish v then JUndefined else get_index v i)"

subsection \<open>String operations\<close>

text \<open>
  \<^verbatim>\<open>String.prototype.trim\<close> removes the code units that are WhiteSpace or LineTerminator
  in ECMAScript from both ends.
\<close>

definition is_space :: "code_unit \<Rightarrow> bool" where
  "is_space c = (c \<in> set [0x9, 0xA, 0xB, 0xC, 0xD, 0x20, 0xA0, 0x1680, 0x2028, 0x2029,
                          0x202F, 0x205F, 0x3000, 0xFEFF]
                 \<or> (0x2000 \<le> c \<and> c \<le> 0x200A))"

definition trim :: "jsstring \<Rightarrow> jsstring" where
  "trim s = rev (dropWhile is_space (rev (dropWhile is_space s)))"

definition startsWith :: "jsstring \<Rightarrow> jsstring \<Rightarrow> bool" where
  "startsWith p s = (take (length p) s = p)"

text \<open>\<^verbatim>\<open>s.includes(p)\<close>: \<open>p\<close> occurs in \<open>s\<close> as a substring.\<close>

fun str_includes :: "jsstring \<Rightarrow> jsstring \<Rightarrow> bool" where
  "str_includes p [] = (p = [])"
| "str_includes p (c # cs) = (if startsWith p (c # cs) then True else str_includes p cs)"

text \<open>\<^verbatim>\<open>s.indexOf(c)\<close> for a single code unit; \<open>None\<close> is the result \<open>-1\<close>.\<close>

fun indexOf :: "code_unit \<Rightarrow> jsstring \<Rightarrow> nat option" where
  "indexOf c [] = None"
| "indexOf c (x # xs) =
     (if x = c then Some 0 else (case indexOf c xs of None \<Rightarrow> None | Some i \<Rightarrow> Some (Suc i)))"

definition newline :: code_unit where
  "newline = 0xA"

text \<open>\<^verbatim>\<open>xs.join(sep)\<close> on strings.\<close>

fun join :: "jsstring \<Rightarrow> jsstring list \<Rightarrow> jsstring" where
  "join sep [] = []"
| "join sep [x] = x"
| "join sep (x # y # zs) = x @ sep @ join sep (y # zs)"

section \<open>The runtime and the effects of a request\<close>

text \<open>
  What the JavaScript runtime supplies and this repository does not define:
  the \<^verbatim>\<open>DEBUG\<close> flag read from the environment, \<^verbatim>\<open>JSON.parse\<close> (\<open>None\<close> when it throws
  a SyntaxError), \<^verbatim>\<open>Date.now()\<close> (the reading returned by the \<open>k\<close>-th call made while the
  request is served) and the text of a number (\<^verbatim>\<open>String(n)\<close>).
\<close>

record runtime =
  DEBUG :: bool
  JSON_parse :: "jsstring \<Rightarrow> jsval option"
  Date_now :: "nat \<Rightarrow> nat"
  Number_toString :: "rat \<Rightarrow> jsstring"

text \<open>
  One \<^verbatim>\<open>res.write\<close> of the streaming path: \<open>Done\<close> is the text \<^verbatim>\<open>data: [DONE]\n\n\<close>,
  \<open>Data v\<close> is \<^verbatim>\<open>data: \<close> followed by \<^verbatim>\<open>JSON.stringify(v)\<close> and a blank line. The source
  only ever writes \<open>Data\<close> with an object, whose text starts with a brace, so a \<open>Data\<close> event
  is never the termination event.
\<close>

datatype sse_event = Done | Data jsval

datatype console_entry =
    LogProcessingLine jsstring
  | ErrParseError js_error
  | ErrParseErrorLine jsstring
  | ErrParseErrorDetails js_error
  | ErrStreamProcessing

text \<open>
  The observable effects of serving one streaming response: the events written to the
  client in order, the console output, the number of \<^verbatim>\<open>Date.now()\<close> calls made so far,
  and whether \<^verbatim>\<open>res.end()\<close> has been called.
\<close>

record effects =
  written :: "sse_event list"
  console :: "console_entry list"
  clock :: nat
  ended :: bool

definition no_effects :: effects where
  "no_effects = \<lparr>written = [], console = [], clock = 0, ended = False\<rparr>"

definition res_write :: "sse_event \<Rightarrow> effects \<Rightarrow> effects" where
  "res_write e fx = fx\<lparr>written := written fx @ [e]\<rparr>"

definition console_out :: "console_entry \<Rightarrow> effects \<Rightarrow> effects" where
  "console_out e fx = fx\<lparr>console := console fx @ [e]\<rparr>"

definition res_end :: "effects \<Rightarrow> effects" where
  "res_end fx = fx\<lparr>ended := True\<rparr>"

section \<open>The Event Translator of the streaming path: \<^verbatim>\<open>processLine\<close>\<close>

text \<open>
  \<^verbatim>\<open>googleChunk.candidates?.[0]?.content?.parts?.[0]?.text\<close>. The first access is not
  optional: it throws a TypeError when the parsed document is \<^verbatim>\<open>null\<close>.
\<close>

definition first_part_text :: "jsval \<Rightarrow> js_error + jsval" where
  "first_part_text googleChunk =
     (if nullish googleChunk then Inl TypeError
      else Inr (opt_prop (opt_index (opt_prop (opt_prop (opt_index
                  (get_prop googleChunk (js ''candidates'')) 0)
                  (js ''content'')) (js ''parts'')) 0) (js ''text'')))"

text \<open>The \<^verbatim>\<open>catch\<close> block of \<^verbatim>\<open>processLine\<close>.\<close>

definition parse_error :: "runtime \<Rightarrow> jsstring \<Rightarrow> js_error \<Rightarrow> effects \<Rightarrow> effects" where
  "parse_error rt line e fx =
     (let fx1 = console_out (ErrParseError e) fx
      in if DEBUG rt
         then console_out (ErrParseErrorDetails e) (console_out (ErrParseErrorLine line) fx1)
         else fx1)"

text \<open>The object literal \<^verbatim>\<open>openAIChunk\<close>; \<open>t1\<close> and \<open>t2\<close> are its two clock readings.\<close>

definition openAIChunk :: "nat \<Rightarrow> nat \<Rightarrow> jsval \<Rightarrow> jsval \<Rightarrow> jsval" where
  "openAIChunk t1 t2 model content =
     JObj [(js ''id'', JStr (js ''chatcmpl-'' @ decimal t1)),
           (js ''object'', JStr (js ''chat.completion.chunk'')),
           (js ''created'', JNum (of_nat t2 / 1000)),
           (js ''model'', model),
           (js ''choices'', JArr [JObj [(js ''index'', JNum 0),
                                       (js ''delta'', JObj [(js ''content'', content)]),
                                       (js ''finish_reason'', JNull)]])]"

definition processLine :: "runtime \<Rightarrow> jsval \<Rightarrow> jsstring \<Rightarrow> effects \<Rightarrow> effects" where
  "processLine rt model line fx =
     (if trim line = [] then fx
      else if startsWith (js ''data: '') line then
        (let data = drop 6 line in
         if data = js ''[DONE]'' then res_write Done fx
         else
           (let fx1 = (if DEBUG rt then console_out (LogProcessingLine line) fx else fx)
            in case JSON_parse rt data of
                 None \<Rightarrow> parse_error rt line SyntaxError fx1
               | Some googleChunk \<Rightarrow>
                   (case first_part_text googleChunk of
                      Inl e \<Rightarrow> parse_error rt line e fx1
                    | Inr content \<Rightarrow>
                        if truthy content
                        then res_write
                               (Data (openAIChunk (Date_now rt (clock fx1))
                                        (Date_now rt (Suc (clock fx1))) model content))
                               (fx1\<lparr>clock := clock fx1 + 2\<rparr>)
                        else fx1)))
      else fx)"

section \<open>The Stream Reassembler: the read loop of \<^verbatim>\<open>handler\<close>\<close>

text \<open>
  \<^verbatim>\<open>decoder.decode(value, { stream: true })\<close>: the decoder consumes the bytes of a chunk one
  by one; each byte changes the state it carries across chunks (the bytes of an unfinished
  character) and yields the code units completed by it. The decoder is the runtime's, so it
  is a parameter: its step function \<open>step\<close> and its state.
\<close>

fun decode :: "('d \<Rightarrow> byte \<Rightarrow> 'd \<times> jsstring) \<Rightarrow> 'd \<Rightarrow> byte list \<Rightarrow> 'd \<times> jsstring" where
  "decode step d [] = (d, [])"
| "decode step d (b # bs) =
     (case step d b of (d1, out1) \<Rightarrow>
        (case decode step d1 bs of (d2, out2) \<Rightarrow> (d2, out1 @ out2)))"

text \<open>
  The inner loop \<^verbatim>\<open>while ((newlineIndex = buffer.indexOf('\n')) !== -1)\<close>, with the line
  processor \<open>pl\<close> it calls; it returns the buffer left over and the effects.
\<close>

function drain :: "(jsstring \<Rightarrow> 'fx \<Rightarrow> 'fx) \<Rightarrow> jsstring \<Rightarrow> 'fx \<Rightarrow> jsstring \<times> 'fx" where
  "drain pl buffer fx =
     (case indexOf newline buffer of
        None \<Rightarrow> (buffer, fx)
      | Some newlineIndex \<Rightarrow>
          (let line = take newlineIndex buffer
           in drain pl (drop (newlineIndex + 1) buffer)
                (if trim line \<noteq> [] then pl line fx else fx)))"
  by pat_completeness auto
termination
proof (relation "measure (\<lambda>(pl, buffer, fx). length buffer)")
  show "wf (measure (\<lambda>(pl :: jsstring \<Rightarrow> 'fx \<Rightarrow> 'fx, buffer :: jsstring, fx :: 'fx). length buffer))"
    by simp
next
  fix pl :: "jsstring \<Rightarrow> 'fx \<Rightarrow> 'fx" and buffer :: jsstring and fx :: 'fx and i line
  assume found: "indexOf newline buffer = Some i"
  have bound: "indexOf c s = Some k \<Longrightarrow> k < length s" for c s k
    by (induction s arbitrary: k) (auto split: if_splits option.splits)
  from bound [OF found]
  show "((pl, drop (i + 1) buffer, if trim line \<noteq> [] then pl line fx else fx), pl, buffer, fx)
          \<in> measure (\<lambda>(pl, buffer, fx). length buffer)"
    by simp
qed

declare drain.simps [simp del]

text \<open>
  One \<^verbatim>\<open>await reader.read()\<close> either yields a chunk or rejects with a transport error; when
  the list of reads is used up the reader reports \<^verbatim>\<open>done\<close>.
\<close>

datatype read_result = Value "byte list" | Rejected

text \<open>
  The \<^verbatim>\<open>while (true)\<close> loop with its \<^verbatim>\<open>try\<close>/\<^verbatim>\<open>catch\<close>/\<^verbatim>\<open>finally\<close>: \<open>d\<close> is the decoder's
  state, \<open>buffer\<close> the variable of that name (the variable \<^verbatim>\<open>partialLine\<close> is never
  used).
\<close>

fun read_loop :: "(jsstring \<Rightarrow> effects \<Rightarrow> effects) \<Rightarrow> ('d \<Rightarrow> byte \<Rightarrow> 'd \<times> jsstring) \<Rightarrow>
    read_result list \<Rightarrow> 'd \<Rightarrow> jsstring \<Rightarrow> effects \<Rightarrow> effects" where
  "read_loop pl step [] d buffer fx =
     res_end (res_write Done (if buffer \<noteq> [] then pl buffer fx else fx))"
| "read_loop pl step (Rejected # reads) d buffer fx =
     res_end (console_out ErrStreamProcessing fx)"
| "read_loop pl step (Value v # reads) d buffer fx =
     (case decode step d v of (d1, chunk) \<Rightarrow>
        (case drain pl (buffer @ chunk) fx of (buffer1, fx1) \<Rightarrow>
           read_loop pl step reads d1 buffer1 fx1))"

text \<open>The streaming branch of \<^verbatim>\<open>handler\<close>, from a fresh decoder and an empty buffer.\<close>

definition stream_response :: "runtime \<Rightarrow> ('d \<Rightarrow> byte \<Rightarrow> 'd \<times> jsstring) \<Rightarrow> 'd \<Rightarrow> jsval \<Rightarrow>
    read_result list \<Rightarrow> effects" where
  "stream_response rt step d0 model reads =
     read_loop (processLine rt model) step reads d0 [] no_effects"

section \<open>Model selection and the Request Translator\<close>

text \<open>
  \<^verbatim>\<open>openAIRequest.model?.includes('gemini') ? openAIRequest.model : 'gemini-pro'\<close>.
  On a string \<^verbatim>\<open>includes\<close> is the substring test, on an array the membership test; any
  other value that is not \<^verbatim>\<open>null\<close> or \<^verbatim>\<open>undefined\<close> has no callable \<^verbatim>\<open>includes\<close>, and the
  call throws.
\<close>

definition select_model :: "jsval \<Rightarrow> js_error + jsval" where
  "select_model openAIRequest =
     (if nullish openAIRequest then Inl TypeError
      else
        (let m = get_prop openAIRequest (js ''model'')
         in case m of
              JUndefined \<Rightarrow> Inr (JStr (js ''gemini-pro''))
            | JNull \<Rightarrow> Inr (JStr (js ''gemini-pro''))
            | JStr s \<Rightarrow> Inr (if str_includes (js ''gemini'') s then m else JStr (js ''gemini-pro''))
            | JArr xs \<Rightarrow> Inr (if JStr (js ''gemini'') \<in> set xs then m else JStr (js ''gemini-pro''))
            | JBool b \<Rightarrow> Inl TypeError
            | JNum n \<Rightarrow> Inl TypeError
            | JObj kvs \<Rightarrow> Inl TypeError))"

text \<open>The values of a list of results, or its first error.\<close>

fun collect :: "(js_error + 'a) list \<Rightarrow> js_error + 'a list" where
  "collect [] = Inr []"
| "collect (Inl e # rs) = Inl e"
| "collect (Inr x # rs) = (case collect rs of Inl e \<Rightarrow> Inl e | Inr xs \<Rightarrow> Inr (x # xs))"

text \<open>
  The text of a value (\<^verbatim>\<open>String(v)\<close>, also what a template literal inserts). An array
  is the join of its elements with a comma. An object is converted through its
  \<^verbatim>\<open>toString\<close>: the inherited one gives \<^verbatim>\<open>[object Object]\<close>, but an own property of that
  name, which in a parsed document is never a function, hides it, and since the inherited
  \<^verbatim>\<open>valueOf\<close> returns the object itself the conversion throws a TypeError.
  \<^verbatim>\<open>Array.prototype.join\<close> takes the empty string for an element that is \<^verbatim>\<open>null\<close> or
  \<^verbatim>\<open>undefined\<close> and the text of every other element, in order.
\<close>

fun to_string :: "runtime \<Rightarrow> jsval \<Rightarrow> js_error + jsstring" where
  "to_string rt JUndefined = Inr (js ''undefined'')"
| "to_string rt JNull = Inr (js ''null'')"
| "to_string rt (JBool b) = Inr (if b then js ''true'' else js ''false'')"
| "to_string rt (JNum n) = Inr (Number_toString rt n)"
| "to_string rt (JStr s) = Inr s"
| "to_string rt (JArr xs) =
     (case collect (map (\<lambda>v. if nullish v then Inr [] else to_string rt v) xs) of
        Inl e \<Rightarrow> Inl e
      | Inr texts \<Rightarrow> Inr (join (js '','') texts))"
| "to_string rt (JObj kvs) =
     (case map_of kvs (js ''toString'') of
        None \<Rightarrow> Inr (js ''[object Object]'')
      | Some v \<Rightarrow> Inl TypeError)"

definition join_values :: "runtime \<Rightarrow> jsstring \<Rightarrow> jsval list \<Rightarrow> js_error + jsstring" where
  "join_values rt sep xs =
     (case collect (map (\<lambda>v. if nullish v then Inr [] else to_string rt v) xs) of
        Inl e \<Rightarrow> Inl e
      | Inr texts \<Rightarrow> Inr (join sep texts))"

text \<open>
  \<^verbatim>\<open>convertOpenAIToGoogle\<close>. \<^verbatim>\<open>messages.map\<close> exists on arrays only, \<^verbatim>\<open>msg.content\<close>
  throws on a message that is \<^verbatim>\<open>null\<close>, and \<^verbatim>\<open>join\<close> throws when the text of a content
  cannot be taken.
\<close>

definition convertOpenAIToGoogle :: "runtime \<Rightarrow> jsval \<Rightarrow> js_error + jsval" where
  "convertOpenAIToGoogle rt openAIRequest =
     (if nullish openAIRequest then Inl TypeError
      else
        (case js_or (get_prop openAIRequest (js ''messages'')) (JArr []) of
           JArr messages \<Rightarrow>
             (if list_ex nullish messages then Inl TypeError
              else
                (case join_values rt [newline]
                        (map (\<lambda>msg. get_prop msg (js ''content'')) messages) of
                   Inl e \<Rightarrow> Inl e
                 | Inr prompt \<Rightarrow>
                     Inr (JObj
                       [(js ''contents'',
                           JArr [JObj [(js ''parts'', JArr [JObj [(js ''text'', JStr prompt)]])]]),
                        (js ''generationConfig'',
                           JObj [(js ''temperature'',
                                  js_or (get_prop openAIRequest (js ''temperature''))
                                        (JNum 0.7))])])))
         | JUndefined \<Rightarrow> Inl TypeError
         | JNull \<Rightarrow> Inl TypeError
         | JBool b \<Rightarrow> Inl TypeError
         | JNum n \<Rightarrow> Inl TypeError
         | JStr s \<Rightarrow> Inl TypeError
         | JObj kvs \<Rightarrow> Inl TypeError))"

section \<open>The Event Translator of the non-streaming path\<close>

text \<open>
  \<^verbatim>\<open>convertGoogleToOpenAI(googleResponse, model)\<close>; \<open>t1\<close> and \<open>t2\<close> are the readings of its two
  \<^verbatim>\<open>Date.now()\<close> calls. Reading \<^verbatim>\<open>googleResponse.error\<close> throws when the response body
  is \<^verbatim>\<open>null\<close>.
\<close>

definition convertGoogleToOpenAI :: "nat \<Rightarrow> nat \<Rightarrow> jsval \<Rightarrow> jsval \<Rightarrow> js_error + jsval" where
  "convertGoogleToOpenAI t1 t2 googleResponse model =
     (if nullish googleResponse then Inl TypeError
      else if truthy (get_prop googleResponse (js ''error'')) then
        Inr (JObj [(js ''error'',
               JObj [(js ''message'', get_prop (get_prop googleResponse (js ''error'')) (js ''message'')),
                     (js ''type'', JStr (js ''invalid_request_error'')),
                     (js ''code'', get_prop (get_prop googleResponse (js ''error'')) (js ''code''))])])
      else
        (let content = opt_prop (opt_index (get_prop googleResponse (js ''candidates'')) 0)
                         (js ''content'')
         in if truthy content then
              Inr (JObj
                [(js ''id'', JStr (js ''chatcmpl-'' @ decimal t1)),
                 (js ''object'', JStr (js ''chat.completion'')),
                 (js ''created'', JNum (of_nat t2 / 1000)),
                 (js ''model'', model),
                 (js ''choices'',
                    JArr [JObj [(js ''index'', JNum 0),
                                (js ''message'',
                                   JObj [(js ''role'', JStr (js ''assistant'')),
                                         (js ''content'',
                                            js_or (opt_prop (opt_index (get_prop content (js ''parts'')) 0)
                                                     (js ''text''))
                                                  (JStr []))]),
                                (js ''finish_reason'', JStr (js ''stop''))]]),
                 (js ''usage'',
                    JObj [(js ''prompt_tokens'', JNum (- 1)),
                          (js ''completion_tokens'', JNum (- 1)),
                          (js ''total_tokens'', JNum (- 1))])])
            else
              Inr (JObj [(js ''error'',
                     JObj [(js ''message'', JStr (js ''No content generated'')),
                           (js ''type'', JStr (js ''invalid_response_error''))])])))"

section \<open>The handler after a successful upstream call\<close>

text \<open>
  The template literal \<^verbatim>\<open>`${baseUrl}/${model}:${endpoint}`\<close>: it throws when the text of
  the model cannot be taken. \<^verbatim>\<open>new URL\<close> accepts every such text, since the scheme and
  the host are those of \<^verbatim>\<open>baseUrl\<close> and the model only enters the path.
\<close>

definition googleUrl_text :: "runtime \<Rightarrow> jsval \<Rightarrow> bool \<Rightarrow> js_error + jsstring" where
  "googleUrl_text rt model isStreamRequest =
     (case to_string rt model of
        Inl e \<Rightarrow> Inl e
      | Inr m \<Rightarrow>
          Inr (js ''https://generativelanguage.googleapis.com/v1beta/models'' @ js ''/'' @ m
               @ js '':''
               @ (if isStreamRequest then js ''streamGenerateContent''
                  else js ''generateContent'')))"

datatype outcome = Streamed effects | JsonReply jsval | InternalError

text \<open>
  \<^verbatim>\<open>handler\<close> for a \<^verbatim>\<open>POST\<close> request that carries a bearer credential, from the point where
  it reads the request body, when the upstream call returned a success status: \<open>reads\<close> is
  what the reader of the response body yields, \<open>body\<close> what \<^verbatim>\<open>response.json()\<close> resolves to.
  An exception reaches the outer \<^verbatim>\<open>catch\<close>, which answers with status 500
  (\<open>InternalError\<close>). The CORS and content-type headers, the method and credential checks,
  the query parameters of the upstream URL and the \<^verbatim>\<open>DEBUG\<close> logging of the two request
  bodies are left out.
\<close>

definition handler_upstream_ok :: "runtime \<Rightarrow> ('d \<Rightarrow> byte \<Rightarrow> 'd \<times> jsstring) \<Rightarrow> 'd \<Rightarrow> jsval \<Rightarrow>
    read_result list \<Rightarrow> js_error + jsval \<Rightarrow> outcome" where
  "handler_upstream_ok rt step d0 openAIRequest reads body =
     (if nullish openAIRequest then InternalError
      else
        (let isStreamRequest = (get_prop openAIRequest (js ''stream'') = JBool True)
         in case select_model openAIRequest of
              Inl e \<Rightarrow> InternalError
            | Inr model \<Rightarrow>
                (case googleUrl_text rt model isStreamRequest of
                   Inl e \<Rightarrow> InternalError
                 | Inr url \<Rightarrow>
                     (case convertOpenAIToGoogle rt openAIRequest of
                        Inl e \<Rightarrow> InternalError
                      | Inr googleRequest \<Rightarrow>
                          if isStreamRequest
                          then Streamed (stream_response rt step d0 model reads)
                          else
                            (case body of
                               Inl e \<Rightarrow> InternalError
                             | Inr googleResponse \<Rightarrow>
                                 (case convertGoogleToOpenAI (Date_now rt 0) (Date_now rt 1)
                                         googleResponse model of
                                    Inl e \<Rightarrow> InternalError
                                  | Inr openAIResponse \<Rightarrow> JsonReply openAIResponse))))))"

section \<open>Lines of a text\<close>

text \<open>
  The pieces of a text between its newlines, in order; the last piece is what follows the
  last newline (empty when the text ends with a newline).
\<close>

fun split_lines :: "jsstring \<Rightarrow> jsstring list" where
  "split_lines [] = [[]]"
| "split_lines (c # cs) =
     (if c = newline then [] # split_lines cs
      else (case split_lines cs of [] \<Rightarrow> [[c]] | l # ls \<Rightarrow> (c # l) # ls))"

definition complete_lines :: "jsstring \<Rightarrow> jsstring list" where
  "complete_lines t = butlast (split_lines t)"

definition remainder :: "jsstring \<Rightarrow> jsstring" where
  "remainder t = last (split_lines t)"

text \<open>A line that is neither empty nor whitespace only.\<close>

definition nonblank :: "jsstring \<Rightarrow> bool" where
  "nonblank line = (trim line \<noteq> [])"

text \<open>
  The lines the Stream Reassembler is to hand on for a stream whose whole text is \<open>t\<close>: the
  complete lines that are not blank and, at the end of the stream, the remainder if it is
  not empty.
\<close>

definition emitted_lines :: "jsstring \<Rightarrow> jsstring list" where
  "emitted_lines t =
     filter nonblank (complete_lines t) @ (if remainder t \<noteq> [] then [remainder t] else [])"

text \<open>Calling the line processor on a list of lines, in order.\<close>

definition process_lines :: "(jsstring \<Rightarrow> 'fx \<Rightarrow> 'fx) \<Rightarrow> jsstring list \<Rightarrow> 'fx \<Rightarrow> 'fx" where
  "process_lines pl ls fx = foldl (\<lambda>fx line. pl line fx) fx ls"

text \<open>
  The text of a whole stream: the code units the decoder yields on the concatenation of
  the chunks, and the state the decoder is left in.
\<close>

definition decoded :: "('d \<Rightarrow> byte \<Rightarrow> 'd \<times> jsstring) \<Rightarrow> 'd \<Rightarrow> byte list list \<Rightarrow> jsstring" where
  "decoded step d cs = snd (decode step d (concat cs))"

definition decoder_after :: "('d \<Rightarrow> byte \<Rightarrow> 'd \<times> jsstring) \<Rightarrow> 'd \<Rightarrow> byte list list \<Rightarrow> 'd" where
  "decoder_after step d cs = fst (decode step d (concat cs))"

section \<open>A concrete runtime for the examples\<close>

text \<open>
  The UTF-8 decoder on ASCII input: a byte below \<open>0x80\<close> is one code unit of the same value
  and leaves no state behind. The examples feed it ASCII only.
\<close>

definition ascii_step :: "unit \<Rightarrow> byte \<Rightarrow> unit \<times> jsstring" where
  "ascii_step d b = (d, [ucast b])"

text \<open>The backend event that carries the text \<open>t\<close> in its first candidate's first part.\<close>

definition text_event :: "jsstring \<Rightarrow> jsval" where
  "text_event t =
     JObj [(js ''candidates'',
            JArr [JObj [(js ''content'', JObj [(js ''parts'', JArr [JObj [(js ''text'', JStr t)]])])]])]"

text \<open>Three backend documents, and a text that is not JSON.\<close>

definition hi_document :: string where
  \<open>hi_document = ''{"candidates":[{"content":{"parts":[{"text":"Hi"}]}}]}''\<close>

definition bang_document :: string where
  \<open>bang_document = ''{"candidates":[{"content":{"parts":[{"text":"!"}]}}]}''\<close>

definition empty_text_document :: string where
  \<open>empty_text_document = ''{"candidates":[{"content":{"parts":[{"text":""}]}}]}''\<close>

definition bad_document :: string where
  "bad_document = ''{bad''"

text \<open>The line of the backend's event stream that carries a document.\<close>

definition sse_line :: "string \<Rightarrow> jsstring" where
  "sse_line doc = js (''data: '' @ doc)"

text \<open>
  \<^verbatim>\<open>JSON.parse\<close> on the texts the examples pass to it: the values of the three documents;
  it throws on \<open>bad_document\<close>.
\<close>

definition sample_parse :: "jsstring \<Rightarrow> jsval option" where
  "sample_parse = map_of
     [(js hi_document, text_event (js ''Hi'')),
      (js bang_document, text_event (js ''!'')),
      (js empty_text_document, text_event [])]"

text \<open>
  A runtime without \<^verbatim>\<open>DEBUG\<close> whose clock starts at 1700000000000 ms and advances by one
  millisecond per call; its number text is right for the natural numbers.
\<close>

definition sample_runtime :: runtime where
  "sample_runtime =
     \<lparr>DEBUG = False, JSON_parse = sample_parse, Date_now = (\<lambda>k. 1700000000000 + k),
      Number_toString = (\<lambda>n. decimal (nat \<lfloor>n\<rfloor>))\<rparr>"

text \<open>A line processor that only records the lines it is called with, on the console.\<close>

definition record_line :: "jsstring \<Rightarrow> effects \<Rightarrow> effects" where
  "record_line line fx = console_out (LogProcessingLine line) fx"

section \<open>Auxiliary facts\<close>

lemma process_lines_simps [simp]:
  "process_lines pl [] fx = fx"
  "process_lines pl (l # ls) fx = process_lines pl ls (pl l fx)"
  "process_lines pl (xs @ ys) fx = process_lines pl ys (process_lines pl xs fx)"
  by (simp_all add: process_lines_def)

lemma decode_append:
  "decode step d (a @ b) =
     (case decode step d a of (d1, o1) \<Rightarrow> (case decode step d1 b of (d2, o2) \<Rightarrow> (d2, o1 @ o2)))"
  by (induction a arbitrary: d) (auto split: prod.splits)

lemma split_lines_nonempty [simp]: "split_lines s \<noteq> []"
  by (induction s) (auto split: list.splits)

lemma indexOf_None_iff: "indexOf c s = None \<longleftrightarrow> c \<notin> set s"
  by (induction s) (auto split: option.splits)

lemma indexOf_Some_split:
  "indexOf c s = Some i \<Longrightarrow> s = take i s @ c # drop (Suc i) s \<and> c \<notin> set (take i s)"
  by (induction s arbitrary: i) (auto split: if_splits option.splits)

lemma split_lines_no_newline: "newline \<notin> set s \<Longrightarrow> split_lines s = [s]"
  by (induction s) auto

lemma split_lines_first: "newline \<notin> set a \<Longrightarrow> split_lines (a @ newline # b) = a # split_lines b"
  by (induction a) auto

lemma last_split_lines_no_newline: "newline \<notin> set (last (split_lines s))"
  by (induction s) (auto split: list.splits)

lemma split_lines_append:
  "split_lines (a @ b) = butlast (split_lines a) @ split_lines (last (split_lines a) @ b)"
  by (induction a) (auto split: list.splits)

lemma drain_split:
  "drain pl buffer fx =
     (last (split_lines buffer), process_lines pl (filter nonblank (butlast (split_lines buffer))) fx)"
proof (induction pl buffer fx rule: drain.induct)
  case (1 pl buffer fx)
  show ?case
  proof (cases "indexOf newline buffer")
    case None
    then have "newline \<notin> set buffer" by (simp add: indexOf_None_iff)
    with None show ?thesis
      by (subst drain.simps) (simp add: split_lines_no_newline)
  next
    case (Some i)
    from indexOf_Some_split [OF Some]
    have dec: "buffer = take i buffer @ newline # drop (Suc i) buffer"
      and nn: "newline \<notin> set (take i buffer)" by simp_all
    have sp: "split_lines buffer = take i buffer # split_lines (drop (Suc i) buffer)"
      using split_lines_first [OF nn, of "drop (Suc i) buffer"] dec by simp
    have nb: "(trim (take i buffer) \<noteq> []) = nonblank (take i buffer)"
      by (simp add: nonblank_def)
    have ih: "drain pl (drop (Suc i) buffer) fx' =
        (last (split_lines (drop (Suc i) buffer)),
         process_lines pl (filter nonblank (butlast (split_lines (drop (Suc i) buffer)))) fx')"
      if "fx' = (if trim (take i buffer) \<noteq> [] then pl (take i buffer) fx else fx)" for fx'
      using "1.IH" [OF Some refl] that by simp
    show ?thesis
      by (subst drain.simps) (simp add: Some ih sp nonblank_def Let_def)
  qed
qed

lemma read_loop_values:
  "newline \<notin> set buffer \<Longrightarrow>
   read_loop pl step (map Value cs @ rest) d buffer fx =
     (case decode step d (concat cs) of (d1, t) \<Rightarrow>
        read_loop pl step rest d1 (last (split_lines (buffer @ t)))
          (process_lines pl (filter nonblank (butlast (split_lines (buffer @ t)))) fx))"
proof (induction cs arbitrary: d buffer fx)
  case Nil
  then show ?case by (simp add: split_lines_no_newline)
next
  case (Cons c cs)
  obtain d1 chunk where dc: "decode step d c = (d1, chunk)" by (cases "decode step d c")
  obtain d2 t where dt: "decode step d1 (concat cs) = (d2, t)"
    by (cases "decode step d1 (concat cs)")
  have nn: "newline \<notin> set (last (split_lines (buffer @ chunk)))"
    by (rule last_split_lines_no_newline)
  have sp: "split_lines (buffer @ chunk @ t) =
      butlast (split_lines (buffer @ chunk)) @ split_lines (last (split_lines (buffer @ chunk)) @ t)"
    using split_lines_append [of "buffer @ chunk" t] by simp
  show ?case
    using Cons.IH [OF nn, of d1] 
    by (simp add: dc dt decode_append drain_split sp butlast_append)
qed

lemma read_loop_prefix:
  "read_loop pl step (map Value cs @ rest) d [] fx =
     read_loop pl step rest (decoder_after step d cs) (remainder (decoded step d cs))
       (process_lines pl (filter nonblank (complete_lines (decoded step d cs))) fx)"
  using read_loop_values [of "[]" pl step cs rest d fx]
  by (simp add: decoded_def decoder_after_def complete_lines_def remainder_def split: prod.splits)

lemma read_loop_end:
  "read_loop pl step (map Value cs) d [] fx =
     res_end (res_write Done (process_lines pl (emitted_lines (decoded step d cs)) fx))"
  using read_loop_prefix [of pl step cs "[]" d fx]
  by (simp add: emitted_lines_def)

lemma read_loop_rejected:
  "read_loop pl step (map Value cs @ Rejected # rest) d [] fx =
     res_end (console_out ErrStreamProcessing
       (process_lines pl (filter nonblank (complete_lines (decoded step d cs))) fx))"
  using read_loop_prefix [of pl step cs "Rejected # rest" d fx]
  by simp

lemma processLine_blank: "\<not> nonblank line \<Longrightarrow> processLine rt model line fx = fx"
  by (simp add: processLine_def nonblank_def)

lemma process_lines_filter:
  "(\<And>l fx. \<not> P l \<Longrightarrow> pl l fx = fx) \<Longrightarrow> process_lines pl (filter P ls) fx = process_lines pl ls fx"
  by (induction ls arbitrary: fx) auto

lemma split_lines_butlast_last: "split_lines t = complete_lines t @ [remainder t]"
  by (simp add: complete_lines_def remainder_def)

lemma nonblank_Nil [simp]: "\<not> nonblank []"
  by (simp add: nonblank_def trim_def)

lemma filter_emitted_lines: "filter nonblank (emitted_lines t) = filter nonblank (split_lines t)"
  by (simp add: emitted_lines_def split_lines_butlast_last)

lemma process_emitted_lines:
  "process_lines (processLine rt model) (emitted_lines t) fx =
     process_lines (processLine rt model) (filter nonblank (split_lines t)) fx"
proof -
  have "process_lines (processLine rt model) (emitted_lines t) fx =
        process_lines (processLine rt model) (filter nonblank (emitted_lines t)) fx"
    by (rule process_lines_filter [symmetric]) (rule processLine_blank)
  then show ?thesis by (simp add: filter_emitted_lines)
qed

lemma stream_response_lines:
  "stream_response rt step d model (map Value cs) =
     res_end (res_write Done
       (process_lines (processLine rt model) (filter nonblank (split_lines (decoded step d cs))) no_effects))"
  by (simp add: stream_response_def read_loop_end process_emitted_lines)

lemma trim_Nil_iff: "trim s = [] \<longleftrightarrow> (\<forall>c \<in> set s. is_space c)"
proof -
  have "(\<forall>c \<in> set (dropWhile is_space s). is_space c) \<longleftrightarrow> (\<forall>c \<in> set s. is_space c)"
  proof
    assume a: "\<forall>c \<in> set (dropWhile is_space s). is_space c"
    have "set s = set (takeWhile is_space s) \<union> set (dropWhile is_space s)"
      by (metis set_append takeWhile_dropWhile_id)
    with a show "\<forall>c \<in> set s. is_space c"
      by (auto dest: set_takeWhileD)
  next
    assume "\<forall>c \<in> set s. is_space c"
    then show "\<forall>c \<in> set (dropWhile is_space s). is_space c"
      by (auto dest: set_dropWhileD)
  qed
  then show ?thesis
    by (simp add: trim_def)
qed

lemma startsWith_data: "startsWith (js ''data: '') line \<longleftrightarrow> take 6 line = js ''data: ''"
proof -
  have l: "length (js ''data: '') = 6" by (simp add: js_def)
  show ?thesis unfolding startsWith_def l ..
qed

lemma startsWith_data_nonblank: "startsWith (js ''data: '') line \<Longrightarrow> nonblank line"
proof -
  assume a: "startsWith (js ''data: '') line"
  then have "take 6 line = js ''data: ''" by (simp add: startsWith_data)
  then have "line = js ''data: '' @ drop 6 line" by (metis append_take_drop_id)
  then have "(100 :: code_unit) \<in> set line" by (simp add: js_def) (metis list.set_intros(1))
  moreover have "\<not> is_space (100 :: code_unit)" by (simp add: is_space_def)
  ultimately show ?thesis by (auto simp: nonblank_def trim_Nil_iff)
qed

lemma done_line_iff:
  "startsWith (js ''data: '') line \<and> drop 6 line = js ''[DONE]'' \<longleftrightarrow> line = js ''data: [DONE]''"
proof
  assume a: "startsWith (js ''data: '') line \<and> drop 6 line = js ''[DONE]''"
  then have "take 6 line = js ''data: ''" by (simp add: startsWith_data)
  with a have "line = js ''data: '' @ js ''[DONE]''" by (metis append_take_drop_id)
  then show "line = js ''data: [DONE]''" by (simp add: js_def)
next
  assume "line = js ''data: [DONE]''"
  then show "startsWith (js ''data: '') line \<and> drop 6 line = js ''[DONE]''"
    by (simp add: startsWith_def js_def)
qed

lemma processLine_done: "processLine rt model (js ''data: [DONE]'') fx = res_write Done fx"
proof -
  have "startsWith (js ''data: '') (js ''data: [DONE]'') \<and> drop 6 (js ''data: [DONE]'') = js ''[DONE]''"
    by (simp add: done_line_iff)
  moreover from this have "trim (js ''data: [DONE]'') \<noteq> []"
    using startsWith_data_nonblank [of "js ''data: [DONE]''"] by (simp add: nonblank_def)
  ultimately show ?thesis by (simp add: processLine_def)
qed

lemma parse_error_written [simp]:
  "written (parse_error rt line e fx) = written fx"
  "clock (parse_error rt line e fx) = clock fx"
  "ended (parse_error rt line e fx) = ended fx"
  by (simp_all add: parse_error_def console_out_def Let_def)

lemma processLine_count_done:
  "count_list (written (processLine rt model line fx)) Done =
     count_list (written fx) Done + (if line = js ''data: [DONE]'' then 1 else 0)"
proof (cases "line = js ''data: [DONE]''")
  case True
  then show ?thesis by (simp add: processLine_done res_write_def)
next
  case False
  then have "\<not> (startsWith (js ''data: '') line \<and> drop 6 line = js ''[DONE]'')"
    by (simp add: done_line_iff)
  with False show ?thesis
    by (auto simp: processLine_def Let_def res_write_def console_out_def
             split: option.splits sum.splits)
qed

lemma process_lines_count_done:
  "count_list (written (process_lines (processLine rt model) ls fx)) Done =
     count_list (written fx) Done + count_list ls (js ''data: [DONE]'')"
  by (induction ls arbitrary: fx) (simp_all add: processLine_count_done)

lemma count_list_filter_nonblank:
  "nonblank x \<Longrightarrow> count_list (filter nonblank ls) x = count_list ls x"
  by (induction ls) auto

lemma done_line_nonblank: "nonblank (js ''data: [DONE]'')"
  by (rule startsWith_data_nonblank) (simp add: startsWith_def js_def)

subsection \<open>Facts about the examples\<close>

lemmas sample_defs = sse_line_def hi_document_def bang_document_def empty_text_document_def bad_document_def
  sample_runtime_def sample_parse_def text_event_def

lemmas eval_defs = js_def bytes_def newline_def trim_def is_space_def processLine_def
  startsWith_def res_write_def res_end_def no_effects_def first_part_text_def opt_prop_def
  opt_index_def parse_error_def console_out_def Let_def nonblank_def

lemma ucast_of_char: "(ucast (of_char c :: byte) :: code_unit) = of_char c"
proof -
  have "(of_char c :: byte) = of_nat (of_char c)" by (simp only: of_nat_of_char)
  moreover have "(of_char c :: code_unit) = of_nat (of_char c)" by (simp only: of_nat_of_char)
  moreover have "(of_char c :: nat) < 256"
    by (metis of_char_mod_256 mod_less_divisor zero_less_numeral)
  ultimately show ?thesis
    by (simp add: unsigned_of_nat take_bit_eq_mod)
qed

lemma decode_ascii: "decode ascii_step () (bytes s) = ((), js s)"
  by (induction s) (simp_all add: bytes_def js_def ascii_step_def ucast_of_char)

lemma decoded_ascii: "decoded ascii_step () (map bytes ss) = js (concat ss)"
proof -
  have "concat (map bytes ss) = bytes (concat ss)"
    by (induction ss) (simp_all add: bytes_def)
  then show ?thesis by (simp add: decoded_def decode_ascii)
qed

lemma processLine_parsed:
  assumes "startsWith (js ''data: '') line" and "drop 6 line \<noteq> js ''[DONE]''"
    and "JSON_parse rt (drop 6 line) = Some g" and "first_part_text g = Inr content"
  shows "processLine rt model line fx =
     (if truthy content
      then res_write (Data (openAIChunk (Date_now rt (clock fx)) (Date_now rt (Suc (clock fx)))
                              model content))
             ((if DEBUG rt then console_out (LogProcessingLine line) fx else fx)
                \<lparr>clock := clock fx + 2\<rparr>)
      else (if DEBUG rt then console_out (LogProcessingLine line) fx else fx))"
proof -
  from assms(1) have "trim line \<noteq> []"
    using startsWith_data_nonblank [of line] by (simp add: nonblank_def)
  with assms show ?thesis
    by (simp add: processLine_def Let_def console_out_def)
qed

lemma processLine_malformed:
  assumes "startsWith (js ''data: '') line" and "drop 6 line \<noteq> js ''[DONE]''"
    and "JSON_parse rt (drop 6 line) = None"
  shows "processLine rt model line fx =
     parse_error rt line SyntaxError
       (if DEBUG rt then console_out (LogProcessingLine line) fx else fx)"
proof -
  from assms(1) have "trim line \<noteq> []"
    using startsWith_data_nonblank [of line] by (simp add: nonblank_def)
  with assms show ?thesis
    by (simp add: processLine_def Let_def)
qed

lemma sse_line_facts:
  "startsWith (js ''data: '') (sse_line doc)"
  "drop 6 (sse_line doc) = js doc"
  by (simp_all add: startsWith_def js_def sse_line_def)

lemma sample_document_facts:
  "js hi_document \<noteq> js ''[DONE]''"
  "js bang_document \<noteq> js ''[DONE]''"
  "js empty_text_document \<noteq> js ''[DONE]''"
  "js bad_document \<noteq> js ''[DONE]''"
  "JSON_parse sample_runtime (js hi_document) = Some (text_event (js ''Hi''))"
  "JSON_parse sample_runtime (js bang_document) = Some (text_event (js ''!''))"
  "JSON_parse sample_runtime (js empty_text_document) = Some (text_event [])"
  "JSON_parse sample_runtime (js bad_document) = None"
  by (simp_all add: sample_defs js_def)

lemma first_part_text_event: "first_part_text (text_event t) = Inr (JStr t)"
  by (simp add: first_part_text_def text_event_def opt_prop_def opt_index_def js_def)

lemma processLine_sample_hi:
  "processLine sample_runtime model (sse_line hi_document) fx =
     res_write (Data (openAIChunk (1700000000000 + clock fx) (1700000000001 + clock fx) model
                        (JStr (js ''Hi''))))
       (fx\<lparr>clock := clock fx + 2\<rparr>)"
proof -
  have ne: "js ''Hi'' \<noteq> []" by (simp add: js_def)
  have h: "startsWith (js ''data: '') (sse_line hi_document)"
    "drop 6 (sse_line hi_document) \<noteq> js ''[DONE]''"
    "JSON_parse sample_runtime (drop 6 (sse_line hi_document)) = Some (text_event (js ''Hi''))"
    "first_part_text (text_event (js ''Hi'')) = Inr (JStr (js ''Hi''))"
    by (simp_all add: sse_line_facts sample_document_facts first_part_text_event)
  show ?thesis
    by (simp add: processLine_parsed [OF h] ne) (simp add: sample_runtime_def)
qed

subsection \<open>Values whose text cannot be taken\<close>

lemma to_string_own_toString: "to_string rt (JObj [(js ''toString'', v)]) = Inl TypeError"
  by simp

lemma content_with_own_toString:
  "convertOpenAIToGoogle rt
     (JObj [(js ''messages'',
             JArr [JObj [(js ''content'', JObj [(js ''toString'', JNum 1)])]])])
   = Inl TypeError"
  by (simp add: convertOpenAIToGoogle_def js_or_def join_values_def)

lemma array_model_with_own_toString:
  "handler_upstream_ok rt step d
     (JObj [(js ''model'', JArr [JStr (js ''gemini''), JObj [(js ''toString'', JNum 1)]])])
     reads body
   = InternalError"
  by (simp add: handler_upstream_ok_def select_model_def googleUrl_text_def)

subsection \<open>The temperature of the translated request\<close>

lemma generationConfig_temperature:
  assumes "convertOpenAIToGoogle rt openAIRequest = Inr googleRequest"
  shows "get_prop (get_prop googleRequest (js ''generationConfig'')) (js ''temperature'') =
           js_or (get_prop openAIRequest (js ''temperature'')) (JNum 0.7)"
proof -
  have k: "js ''generationConfig'' \<noteq> js ''contents''"
    by (simp add: js_def)
  from assms show ?thesis
    by (auto simp: convertOpenAIToGoogle_def Let_def k
             split: if_splits jsval.splits sum.splits)
qed

section \<open>The claims\<close>

text \<open>
  Claim C1, as amended. The streaming path writes the termination event once at the end of
  the input and once more for every line \<^verbatim>\<open>data: [DONE]\<close> of the backend's text: a
  stream that is read to its end gives the client one termination event more than the
  backend sent termination lines, hence exactly one when the backend sent none.
\<close>

theorem termination_event_count:
  "count_list (written (stream_response rt step d model (map Value cs))) Done =
     1 + count_list (split_lines (decoded step d cs)) (js ''data: [DONE]'')"
  by (simp add: stream_response_lines res_end_def res_write_def process_lines_count_done
        count_list_filter_nonblank [OF done_line_nonblank] no_effects_def)

text \<open>
  An instance: the backend sends one content event and ends the stream without a
  termination line; the client receives the termination event once.
\<close>

theorem termination_event_count_witness:
  "count_list (written (stream_response sample_runtime ascii_step () (JStr (js ''gemini-pro''))
     (map Value [bytes (''data: '' @ hi_document @ ''\<newline>\<newline>'')]))) Done = 1"
proof -
  have ls: "split_lines (decoded ascii_step () [bytes (''data: '' @ hi_document @ ''\<newline>\<newline>'')])
      = [sse_line hi_document, [], []]"
    using decoded_ascii [of "[''data: '' @ hi_document @ ''\<newline>\<newline>'']"]
    by (simp add: js_def newline_def sample_defs)
  have "sse_line hi_document \<noteq> js ''data: [DONE]''" "[] \<noteq> js ''data: [DONE]''"
    by (simp_all add: js_def sample_defs)
  then show ?thesis
    using termination_event_count [of sample_runtime ascii_step "()" "JStr (js ''gemini-pro'')"
        "[bytes (''data: '' @ hi_document @ ''\<newline>\<newline>'')]"]
    unfolding ls by simp
qed

text \<open>
  Claim C1 as stated fails: the backend sends one termination line and ends the stream,
  and the client receives the termination event twice.
\<close>

theorem termination_event_twice:
  "written (stream_response sample_runtime ascii_step () (JStr (js ''gemini-pro''))
      [Value (bytes ''data: [DONE]\<newline>'')]) = [Done, Done]"
  by (simp add: stream_response_def drain.simps ascii_step_def eval_defs)

text \<open>
  Claim C2, as amended. A line \<^verbatim>\<open>data: [DONE]\<close> in the middle of the stream makes
  \<^verbatim>\<open>processLine\<close> write the termination event and return; the read loop goes on, and
  the lines that follow the sentinel are translated like the lines before it (followed, at
  the end of the input, by the second termination event).
\<close>

theorem lines_after_sentinel_translated:
  assumes "split_lines (decoded step d cs) = before @ js ''data: [DONE]'' # after"
  shows "stream_response rt step d model (map Value cs) =
           res_end (res_write Done
             (process_lines (processLine rt model) (filter nonblank after)
               (res_write Done
                 (process_lines (processLine rt model) (filter nonblank before) no_effects))))"
  by (simp add: stream_response_lines assms done_line_nonblank processLine_done)

text \<open>
  An instance: a sentinel line followed by a content event.
\<close>

theorem lines_after_sentinel_translated_witness:
  "split_lines (decoded ascii_step ()
       [bytes (''data: [DONE]\<newline>data: '' @ hi_document @ ''\<newline>'')])
     = [] @ js ''data: [DONE]'' # [sse_line hi_document, []]
   \<and> stream_response sample_runtime ascii_step () (JStr (js ''gemini-pro''))
       (map Value [bytes (''data: [DONE]\<newline>data: '' @ hi_document @ ''\<newline>'')])
     = \<lparr>written = [Done,
          Data (openAIChunk 1700000000000 1700000000001 (JStr (js ''gemini-pro'')) (JStr (js ''Hi''))),
          Done],
        console = [], clock = 2, ended = True\<rparr>"
proof -
  have h: "split_lines (decoded ascii_step ()
       [bytes (''data: [DONE]\<newline>data: '' @ hi_document @ ''\<newline>'')])
     = [] @ js ''data: [DONE]'' # [sse_line hi_document, []]"
    using decoded_ascii [of "[''data: [DONE]\<newline>data: '' @ hi_document @ ''\<newline>'']"]
    by (simp add: js_def newline_def sample_defs)
  have nb: "nonblank (sse_line hi_document)"
    by (simp add: startsWith_data_nonblank sse_line_facts)
  from lines_after_sentinel_translated [OF h, of sample_runtime "JStr (js ''gemini-pro'')"]
  show ?thesis
    using h unfolding h
    by (simp add: nb processLine_sample_hi res_write_def res_end_def no_effects_def)
qed

text \<open>
  Claim C2 as stated fails: the content event that follows the sentinel line reaches the
  client as a content chunk, after the first termination event.
\<close>

theorem content_after_sentinel:
  "written (stream_response sample_runtime ascii_step () (JStr (js ''gemini-pro''))
      [Value (bytes (''data: [DONE]\<newline>data: '' @ hi_document @ ''\<newline>''))])
   = [Done,
      Data (openAIChunk 1700000000000 1700000000001 (JStr (js ''gemini-pro'')) (JStr (js ''Hi''))),
      Done]"
  by (simp add: stream_response_def drain.simps ascii_step_def eval_defs sample_defs)

text \<open>
  Claim C3. Two segmentations of the same byte sequence make the read loop do the same,
  whatever the line processor \<open>pl\<close> is: it calls \<open>pl\<close> once on each complete line
  that is not blank, in order, and at the end of the stream on the remainder if that is
  not empty. When the chunks \<open>cs\<close> have been read and more may follow, exactly the
  non-blank complete lines of the text received so far have been processed and the
  unfinished line waits in the buffer. With \<^verbatim>\<open>processLine\<close>, which returns at once on
  a blank line, the response is that of processing the non-blank lines of the text.
\<close>

theorem reassembler_lines:
  assumes "concat cs = concat cs'"
  shows "read_loop pl step (map Value cs) d [] fx = read_loop pl step (map Value cs') d [] fx
       \<and> read_loop pl step (map Value cs) d [] fx =
           res_end (res_write Done (process_lines pl (emitted_lines (decoded step d cs)) fx))
       \<and> read_loop pl step (map Value cs @ rest) d [] fx =
           read_loop pl step rest (decoder_after step d cs) (remainder (decoded step d cs))
             (process_lines pl (filter nonblank (complete_lines (decoded step d cs))) fx)
       \<and> stream_response rt step d model (map Value cs) =
           res_end (res_write Done
             (process_lines (processLine rt model)
                (filter nonblank (split_lines (decoded step d cs))) no_effects))"
proof -
  from assms have "decoded step d cs = decoded step d cs'"
    by (simp add: decoded_def)
  then have "read_loop pl step (map Value cs) d [] fx = read_loop pl step (map Value cs') d [] fx"
    by (simp add: read_loop_end)
  then show ?thesis
    using read_loop_end [of pl step cs d fx] read_loop_prefix [of pl step cs rest d fx]
      stream_response_lines [of rt step d model cs]
    by simp
qed

text \<open>
  An instance: the text \<^verbatim>\<open>data: x\<close>, a line of two spaces and \<^verbatim>\<open>y\<close> without a final
  newline, cut inside the first line and sent whole.
\<close>

theorem reassembler_lines_witness:
  "concat [bytes ''da'', bytes ''ta: x\<newline>  \<newline>y''] = concat [bytes ''data: x\<newline>  \<newline>y'']
   \<and> read_loop record_line ascii_step
         (map Value [bytes ''da'', bytes ''ta: x\<newline>  \<newline>y'']) () [] no_effects =
       read_loop record_line ascii_step
         (map Value [bytes ''data: x\<newline>  \<newline>y'']) () [] no_effects
   \<and> read_loop record_line ascii_step
         (map Value [bytes ''da'', bytes ''ta: x\<newline>  \<newline>y'']) () [] no_effects =
       \<lparr>written = [Done],
        console = [LogProcessingLine (js ''data: x''), LogProcessingLine (js ''y'')],
        clock = 0, ended = True\<rparr>"
proof -
  have h: "concat [bytes ''da'', bytes ''ta: x\<newline>  \<newline>y''] = concat [bytes ''data: x\<newline>  \<newline>y'']"
    by (simp add: bytes_def)
  have t: "decoded ascii_step () [bytes ''da'', bytes ''ta: x\<newline>  \<newline>y''] = js ''data: x\<newline>  \<newline>y''"
    using decoded_ascii [of "[''da'', ''ta: x\<newline>  \<newline>y'']"] by simp
  have e: "emitted_lines (js ''data: x\<newline>  \<newline>y'') = [js ''data: x'', js ''y'']"
    by (simp add: emitted_lines_def complete_lines_def remainder_def nonblank_def trim_def
          is_space_def js_def newline_def)
  note th = reassembler_lines [OF h, of record_line ascii_step "()" no_effects "[]" sample_runtime JNull]
  have same: "read_loop record_line ascii_step
         (map Value [bytes ''da'', bytes ''ta: x\<newline>  \<newline>y'']) () [] no_effects =
       read_loop record_line ascii_step
         (map Value [bytes ''data: x\<newline>  \<newline>y'']) () [] no_effects"
    using th by (rule conjunct1)
  have "read_loop record_line ascii_step
         (map Value [bytes ''da'', bytes ''ta: x\<newline>  \<newline>y'']) () [] no_effects =
       res_end (res_write Done (process_lines record_line
         (emitted_lines (decoded ascii_step () [bytes ''da'', bytes ''ta: x\<newline>  \<newline>y''])) no_effects))"
    using th by (rule conjunct1 [OF conjunct2])
  also have "\<dots> = \<lparr>written = [Done],
        console = [LogProcessingLine (js ''data: x''), LogProcessingLine (js ''y'')],
        clock = 0, ended = True\<rparr>"
    by (simp add: t e record_line_def console_out_def res_end_def res_write_def no_effects_def)
  finally show ?thesis
    by (rule conjI [OF h conjI [OF same]])
qed

text \<open>
  Claim C4. A line that starts with \<^verbatim>\<open>data: \<close>, is not the termination line and
  whose remainder \<^verbatim>\<open>JSON.parse\<close> rejects writes nothing, reads no clock and does not end
  the response; it only adds the parse error to the console. A stream of a content event,
  such a line and another content event gives the client the two content chunks and the
  termination event.
\<close>

theorem malformed_line_skipped:
  assumes "startsWith (js ''data: '') line" and "drop 6 line \<noteq> js ''[DONE]''"
    and "JSON_parse rt (drop 6 line) = None"
  shows "written (processLine rt model line fx) = written fx
       \<and> clock (processLine rt model line fx) = clock fx
       \<and> ended (processLine rt model line fx) = ended fx
       \<and> console (processLine rt model line fx) =
           console fx @
             (if DEBUG rt
              then [LogProcessingLine line, ErrParseError SyntaxError, ErrParseErrorLine line,
                    ErrParseErrorDetails SyntaxError]
              else [ErrParseError SyntaxError])
       \<and> (startsWith (js ''data: '') l1 \<and> drop 6 l1 \<noteq> js ''[DONE]''
            \<and> JSON_parse rt (drop 6 l1) = Some g1 \<and> first_part_text g1 = Inr (JStr t1) \<and> t1 \<noteq> []
            \<and> startsWith (js ''data: '') l3 \<and> drop 6 l3 \<noteq> js ''[DONE]''
            \<and> JSON_parse rt (drop 6 l3) = Some g3 \<and> first_part_text g3 = Inr (JStr t3) \<and> t3 \<noteq> []
            \<and> split_lines (decoded step d cs) = [l1, line, l3, []]
          \<longrightarrow> written (stream_response rt step d model (map Value cs)) =
                [Data (openAIChunk (Date_now rt 0) (Date_now rt 1) model (JStr t1)),
                 Data (openAIChunk (Date_now rt 2) (Date_now rt 3) model (JStr t3)),
                 Done]
              \<and> ended (stream_response rt step d model (map Value cs)))"
proof -
  note bad = processLine_malformed [OF assms]
  have single: "written (processLine rt model line fx) = written fx
       \<and> clock (processLine rt model line fx) = clock fx
       \<and> ended (processLine rt model line fx) = ended fx
       \<and> console (processLine rt model line fx) =
           console fx @
             (if DEBUG rt
              then [LogProcessingLine line, ErrParseError SyntaxError, ErrParseErrorLine line,
                    ErrParseErrorDetails SyntaxError]
              else [ErrParseError SyntaxError])" for fx
    by (simp add: bad parse_error_def console_out_def Let_def)
  have sandwich: "written (stream_response rt step d model (map Value cs)) =
                [Data (openAIChunk (Date_now rt 0) (Date_now rt 1) model (JStr t1)),
                 Data (openAIChunk (Date_now rt 2) (Date_now rt 3) model (JStr t3)),
                 Done]
              \<and> ended (stream_response rt step d model (map Value cs))"
    if a1: "startsWith (js ''data: '') l1" "drop 6 l1 \<noteq> js ''[DONE]''"
        "JSON_parse rt (drop 6 l1) = Some g1" "first_part_text g1 = Inr (JStr t1)"
      and n1: "t1 \<noteq> []"
      and a3: "startsWith (js ''data: '') l3" "drop 6 l3 \<noteq> js ''[DONE]''"
        "JSON_parse rt (drop 6 l3) = Some g3" "first_part_text g3 = Inr (JStr t3)"
      and n3: "t3 \<noteq> []"
      and ls: "split_lines (decoded step d cs) = [l1, line, l3, []]"
  proof -
    have nb: "nonblank l1" "nonblank line" "nonblank l3"
      using a1(1) assms(1) a3(1) by (simp_all add: startsWith_data_nonblank)
    show ?thesis
      using n1 n3
      by (simp add: stream_response_lines ls nb processLine_parsed [OF a1]
            processLine_parsed [OF a3] bad parse_error_def console_out_def res_write_def
            res_end_def no_effects_def Let_def numeral_2_eq_2 numeral_3_eq_3)
  qed
  from single [of fx] sandwich show ?thesis by blast
qed

text \<open>
  An instance: the text \<^verbatim>\<open>{bad\<close> between two content events.
\<close>

theorem malformed_line_skipped_witness:
  "startsWith (js ''data: '') (sse_line bad_document)
   \<and> drop 6 (sse_line bad_document) \<noteq> js ''[DONE]''
   \<and> JSON_parse sample_runtime (drop 6 (sse_line bad_document)) = None
   \<and> split_lines (decoded ascii_step ()
         [bytes (''data: '' @ hi_document @ ''\<newline>data: '' @ bad_document @ ''\<newline>data: ''
                   @ bang_document @ ''\<newline>'')])
       = [sse_line hi_document, sse_line bad_document, sse_line bang_document, []]
   \<and> written (processLine sample_runtime (JStr (js ''gemini-pro''))
                (sse_line bad_document) no_effects) = []
   \<and> console (processLine sample_runtime (JStr (js ''gemini-pro''))
                (sse_line bad_document) no_effects) = [ErrParseError SyntaxError]
   \<and> written (stream_response sample_runtime ascii_step () (JStr (js ''gemini-pro''))
        (map Value [bytes (''data: '' @ hi_document @ ''\<newline>data: '' @ bad_document @ ''\<newline>data: ''
                   @ bang_document @ ''\<newline>'')]))
       = [Data (openAIChunk 1700000000000 1700000000001 (JStr (js ''gemini-pro'')) (JStr (js ''Hi''))),
          Data (openAIChunk 1700000000002 1700000000003 (JStr (js ''gemini-pro'')) (JStr (js ''!''))),
          Done]"
proof -
  have h1: "startsWith (js ''data: '') (sse_line bad_document)"
    and h2: "drop 6 (sse_line bad_document) \<noteq> js ''[DONE]''"
    and h3: "JSON_parse sample_runtime (drop 6 (sse_line bad_document)) = None"
    by (simp_all add: sse_line_facts sample_document_facts)
  have ls: "split_lines (decoded ascii_step ()
         [bytes (''data: '' @ hi_document @ ''\<newline>data: '' @ bad_document @ ''\<newline>data: ''
                   @ bang_document @ ''\<newline>'')])
       = [sse_line hi_document, sse_line bad_document, sse_line bang_document, []]"
    using decoded_ascii [of "[''data: '' @ hi_document @ ''\<newline>data: '' @ bad_document @ ''\<newline>data: ''
                   @ bang_document @ ''\<newline>'']"]
    by (simp add: js_def newline_def sample_defs)
  have ne: "js ''Hi'' \<noteq> []" "js ''!'' \<noteq> []" by (simp_all add: js_def)
  from malformed_line_skipped [OF h1 h2 h3, where
      model = "JStr (js ''gemini-pro'')" and fx = no_effects
      and ?l1.0 = "sse_line hi_document" and ?g1.0 = "text_event (js ''Hi'')"
      and ?t1.0 = "js ''Hi''"
      and ?l3.0 = "sse_line bang_document" and ?g3.0 = "text_event (js ''!'')"
      and ?t3.0 = "js ''!''" and step = ascii_step and d = "()"
      and cs = "[bytes (''data: '' @ hi_document @ ''\<newline>data: '' @ bad_document @ ''\<newline>data: ''
                   @ bang_document @ ''\<newline>'')]"]
  show ?thesis
    using h1 h2 h3 ls ne
    by (simp add: sse_line_facts sample_document_facts first_part_text_event)
       (simp add: no_effects_def sample_runtime_def)
qed

text \<open>
  Claim C5, as amended. A parsed event whose first candidate's first part carries a
  truthy text (a non-empty string) writes exactly one chunk: its id is \<^verbatim>\<open>chatcmpl-\<close>
  followed by the clock reading, its model is the one the handler selected (the requested
  name if that contains \<^verbatim>\<open>gemini\<close>, otherwise \<^verbatim>\<open>gemini-pro\<close>, also when the request
  names no model), and it has the single choice of index 0, finish reason \<^verbatim>\<open>null\<close> and
  the text as delta. An event whose text is missing or falsy writes nothing.
\<close>

theorem content_event_translated:
  assumes "startsWith (js ''data: '') line" and "drop 6 line \<noteq> js ''[DONE]''"
    and "JSON_parse rt (drop 6 line) = Some g" and "first_part_text g = Inr content"
    and "select_model openAIRequest = Inr model"
  shows "written (processLine rt model line fx) =
           written fx @
             (if truthy content
              then [Data (openAIChunk (Date_now rt (clock fx)) (Date_now rt (Suc (clock fx)))
                            model content)]
              else [])
       \<and> get_prop (openAIChunk t1 t2 model content) (js ''id'') = JStr (js ''chatcmpl-'' @ decimal t1)
       \<and> get_prop (openAIChunk t1 t2 model content) (js ''model'') = model
       \<and> get_prop (openAIChunk t1 t2 model content) (js ''choices'') =
           JArr [JObj [(js ''index'', JNum 0), (js ''delta'', JObj [(js ''content'', content)]),
                       (js ''finish_reason'', JNull)]]
       \<and> (get_prop openAIRequest (js ''model'') = JStr m \<longrightarrow>
            model = JStr (if str_includes (js ''gemini'') m then m else js ''gemini-pro''))
       \<and> (nullish (get_prop openAIRequest (js ''model'')) \<longrightarrow>
            model = JStr (js ''gemini-pro''))"
proof -
  have w: "written (processLine rt model line fx) =
           written fx @
             (if truthy content
              then [Data (openAIChunk (Date_now rt (clock fx)) (Date_now rt (Suc (clock fx)))
                            model content)]
              else [])"
    by (simp add: processLine_parsed [OF assms(1-4)] res_write_def console_out_def)
  have f: "get_prop (openAIChunk t1 t2 model content) (js ''id'') = JStr (js ''chatcmpl-'' @ decimal t1)"
    "get_prop (openAIChunk t1 t2 model content) (js ''model'') = model"
    "get_prop (openAIChunk t1 t2 model content) (js ''choices'') =
           JArr [JObj [(js ''index'', JNum 0), (js ''delta'', JObj [(js ''content'', content)]),
                       (js ''finish_reason'', JNull)]]"
    by (simp_all add: openAIChunk_def js_def)
  have s: "model = JStr (if str_includes (js ''gemini'') m then m else js ''gemini-pro'')"
    if "get_prop openAIRequest (js ''model'') = JStr m"
    using assms(5) that by (simp add: select_model_def split: if_splits)
  have a: "model = JStr (js ''gemini-pro'')"
    if "nullish (get_prop openAIRequest (js ''model''))"
    using assms(5) that
    by (cases "get_prop openAIRequest (js ''model'')")
       (simp_all add: select_model_def split: if_splits)
  from w f s a show ?thesis by blast
qed

text \<open>
  An instance: the event with the text \<^verbatim>\<open>Hi\<close>, for a request that names a Gemini model;
  and the model selected for a request that names none.
\<close>

theorem content_event_translated_witness:
  "startsWith (js ''data: '') (sse_line hi_document)
   \<and> drop 6 (sse_line hi_document) \<noteq> js ''[DONE]''
   \<and> JSON_parse sample_runtime (drop 6 (sse_line hi_document)) = Some (text_event (js ''Hi''))
   \<and> first_part_text (text_event (js ''Hi'')) = Inr (JStr (js ''Hi''))
   \<and> select_model (JObj [(js ''model'', JStr (js ''gemini-1.5-flash'')), (js ''stream'', JBool True)])
       = Inr (JStr (js ''gemini-1.5-flash''))
   \<and> get_prop (JObj [(js ''model'', JStr (js ''gemini-1.5-flash'')), (js ''stream'', JBool True)])
        (js ''model'') = JStr (js ''gemini-1.5-flash'')
   \<and> JStr (js ''gemini-1.5-flash'') =
       JStr (if str_includes (js ''gemini'') (js ''gemini-1.5-flash'') then js ''gemini-1.5-flash''
             else js ''gemini-pro'')
   \<and> nullish (get_prop (JObj [(js ''stream'', JBool True)]) (js ''model''))
   \<and> select_model (JObj [(js ''stream'', JBool True)]) = Inr (JStr (js ''gemini-pro''))
   \<and> written (processLine sample_runtime (JStr (js ''gemini-1.5-flash'')) (sse_line hi_document)
                no_effects)
       = [Data (JObj [(js ''id'', JStr (js ''chatcmpl-1700000000000'')),
                      (js ''object'', JStr (js ''chat.completion.chunk'')),
                      (js ''created'', JNum (1700000000001 / 1000)),
                      (js ''model'', JStr (js ''gemini-1.5-flash'')),
                      (js ''choices'',
                         JArr [JObj [(js ''index'', JNum 0),
                                     (js ''delta'', JObj [(js ''content'', JStr (js ''Hi''))]),
                                     (js ''finish_reason'', JNull)]])])]"
proof -
  have h1: "startsWith (js ''data: '') (sse_line hi_document)"
    and h2: "drop 6 (sse_line hi_document) \<noteq> js ''[DONE]''"
    and h3: "JSON_parse sample_runtime (drop 6 (sse_line hi_document)) = Some (text_event (js ''Hi''))"
    and h4: "first_part_text (text_event (js ''Hi'')) = Inr (JStr (js ''Hi''))"
    by (simp_all add: sse_line_facts sample_document_facts first_part_text_event)
  have h5: "select_model (JObj [(js ''model'', JStr (js ''gemini-1.5-flash'')), (js ''stream'', JBool True)])
       = Inr (JStr (js ''gemini-1.5-flash''))"
    by (simp add: select_model_def js_def startsWith_def)
  have d: "decimal 1700000000000 = js ''1700000000000''"
    by (simp add: decimal.simps js_def)
  have h6: "get_prop (JObj [(js ''model'', JStr (js ''gemini-1.5-flash'')), (js ''stream'', JBool True)])
        (js ''model'') = JStr (js ''gemini-1.5-flash'')"
    by (simp add: js_def)
  note th = content_event_translated [OF h1 h2 h3 h4 h5, of no_effects 0 0 "js ''gemini-1.5-flash''"]
  have w: "written (processLine sample_runtime (JStr (js ''gemini-1.5-flash'')) (sse_line hi_document)
                no_effects) =
        written no_effects @
          (if truthy (JStr (js ''Hi''))
           then [Data (openAIChunk (Date_now sample_runtime (clock no_effects))
                   (Date_now sample_runtime (Suc (clock no_effects)))
                   (JStr (js ''gemini-1.5-flash'')) (JStr (js ''Hi'')))]
           else [])"
    using th by (rule conjunct1)
  from th h6 have m: "JStr (js ''gemini-1.5-flash'') =
       JStr (if str_includes (js ''gemini'') (js ''gemini-1.5-flash'') then js ''gemini-1.5-flash''
             else js ''gemini-pro'')"
    by blast
  have "written (processLine sample_runtime (JStr (js ''gemini-1.5-flash'')) (sse_line hi_document)
                no_effects)
       = [Data (JObj [(js ''id'', JStr (js ''chatcmpl-1700000000000'')),
                      (js ''object'', JStr (js ''chat.completion.chunk'')),
                      (js ''created'', JNum (1700000000001 / 1000)),
                      (js ''model'', JStr (js ''gemini-1.5-flash'')),
                      (js ''choices'',
                         JArr [JObj [(js ''index'', JNum 0),
                                     (js ''delta'', JObj [(js ''content'', JStr (js ''Hi''))]),
                                     (js ''finish_reason'', JNull)]])])]"
    using w by (simp add: no_effects_def sample_runtime_def openAIChunk_def d) (simp add: js_def)
  moreover have h7: "nullish (get_prop (JObj [(js ''stream'', JBool True)]) (js ''model''))"
    by (simp add: js_def)
  moreover obtain sel where h8: "select_model (JObj [(js ''stream'', JBool True)]) = Inr sel"
    by (simp add: select_model_def js_def)
  moreover from content_event_translated [OF h1 h2 h3 h4 h8, of no_effects 0 0 "[]"] h7
  have "sel = JStr (js ''gemini-pro'')"
    by blast
  ultimately show ?thesis
    using h1 h2 h3 h4 h5 h6 m by blast
qed

text \<open>
  Claim C5 as stated fails: the request names the model \<^verbatim>\<open>gpt-4\<close>, and the chunk
  written for the event carries the model \<^verbatim>\<open>gemini-pro\<close>.
\<close>

theorem default_model_in_chunk:
  "get_prop (JObj [(js ''model'', JStr (js ''gpt-4'')), (js ''stream'', JBool True),
                   (js ''messages'', JArr [JObj [(js ''role'', JStr (js ''user'')),
                                                (js ''content'', JStr (js ''Say hi''))]])])
     (js ''model'') = JStr (js ''gpt-4'')
   \<and> handler_upstream_ok sample_runtime ascii_step ()
        (JObj [(js ''model'', JStr (js ''gpt-4'')), (js ''stream'', JBool True),
               (js ''messages'', JArr [JObj [(js ''role'', JStr (js ''user'')),
                                            (js ''content'', JStr (js ''Say hi''))]])])
        [Value (bytes (''data: '' @ hi_document @ ''\<newline>''))] (Inl SyntaxError)
     = Streamed \<lparr>written = [Data (openAIChunk 1700000000000 1700000000001
                                    (JStr (js ''gemini-pro'')) (JStr (js ''Hi''))), Done],
                 console = [], clock = 2, ended = True\<rparr>
   \<and> get_prop (openAIChunk 1700000000000 1700000000001 (JStr (js ''gemini-pro'')) (JStr (js ''Hi'')))
        (js ''model'') = JStr (js ''gemini-pro'')"
  by (simp add: handler_upstream_ok_def select_model_def googleUrl_text_def
        convertOpenAIToGoogle_def js_or_def
        join_values_def stream_response_def drain.simps ascii_step_def eval_defs sample_defs
        openAIChunk_def)

text \<open>
  Claim C6 fails on the code: a request with the temperature 0 is translated into a
  backend request with the temperature 0.7, because \<^verbatim>\<open>||\<close> takes its right operand for
  every falsy left operand (\<open>generationConfig_temperature\<close> above): the temperature
  passes through when it is truthy, and 0.7 is taken when it is absent or falsy.
\<close>

theorem temperature_zero_becomes_default:
  "convertOpenAIToGoogle rt
     (JObj [(js ''messages'', JArr [JObj [(js ''role'', JStr (js ''user'')),
                                         (js ''content'', JStr (js ''Say hi''))]]),
            (js ''temperature'', JNum 0)])
   = Inr (JObj [(js ''contents'',
                   JArr [JObj [(js ''parts'', JArr [JObj [(js ''text'', JStr (js ''Say hi''))]])]]),
                (js ''generationConfig'', JObj [(js ''temperature'', JNum 0.7)])])"
  by (simp add: convertOpenAIToGoogle_def js_or_def join_values_def js_def)

text \<open>
  Claim C7, as amended. A response that has no truthy \<^verbatim>\<open>error\<close> and whose first
  candidate has a truthy \<^verbatim>\<open>content\<close> is translated into one completion object
  with the finish reason \<^verbatim>\<open>stop\<close>, the text of the first part of that content (the empty
  string when that text is missing or falsy) and the three usage fields equal to -1. The
  translator reads the candidates and the parts at index 0 only, as the streaming path
  does; no path joins the parts.
\<close>

theorem completion_from_first_candidate:
  assumes "\<not> truthy (get_prop googleResponse (js ''error''))"
    and "opt_prop (opt_index (get_prop googleResponse (js ''candidates'')) 0) (js ''content'') = content"
    and "truthy content"
  shows "convertGoogleToOpenAI t1 t2 googleResponse model =
     Inr (JObj
       [(js ''id'', JStr (js ''chatcmpl-'' @ decimal t1)),
        (js ''object'', JStr (js ''chat.completion'')),
        (js ''created'', JNum (of_nat t2 / 1000)),
        (js ''model'', model),
        (js ''choices'',
           JArr [JObj [(js ''index'', JNum 0),
                       (js ''message'',
                          JObj [(js ''role'', JStr (js ''assistant'')),
                                (js ''content'',
                                   js_or (opt_prop (opt_index (get_prop content (js ''parts'')) 0)
                                            (js ''text''))
                                         (JStr []))]),
                       (js ''finish_reason'', JStr (js ''stop''))]]),
        (js ''usage'',
           JObj [(js ''prompt_tokens'', JNum (- 1)),
                 (js ''completion_tokens'', JNum (- 1)),
                 (js ''total_tokens'', JNum (- 1))])])"
proof -
  from assms(2,3) have "\<not> nullish googleResponse"
    by (cases googleResponse) (auto simp: opt_prop_def opt_index_def)
  with assms show ?thesis
    by (simp add: convertGoogleToOpenAI_def Let_def)
qed

text \<open>
  An instance: the response whose only candidate carries the text \<^verbatim>\<open>Hello\<close>.
\<close>

theorem completion_from_first_candidate_witness:
  "\<not> truthy (get_prop (text_event (js ''Hello'')) (js ''error''))
   \<and> opt_prop (opt_index (get_prop (text_event (js ''Hello'')) (js ''candidates'')) 0) (js ''content'')
       = JObj [(js ''parts'', JArr [JObj [(js ''text'', JStr (js ''Hello''))]])]
   \<and> truthy (JObj [(js ''parts'', JArr [JObj [(js ''text'', JStr (js ''Hello''))]])])
   \<and> convertGoogleToOpenAI 1700000000000 1700000000001 (text_event (js ''Hello''))
        (JStr (js ''gemini-pro'')) =
     Inr (JObj
       [(js ''id'', JStr (js ''chatcmpl-1700000000000'')),
        (js ''object'', JStr (js ''chat.completion'')),
        (js ''created'', JNum (1700000000001 / 1000)),
        (js ''model'', JStr (js ''gemini-pro'')),
        (js ''choices'',
           JArr [JObj [(js ''index'', JNum 0),
                       (js ''message'',
                          JObj [(js ''role'', JStr (js ''assistant'')),
                                (js ''content'', JStr (js ''Hello''))]),
                       (js ''finish_reason'', JStr (js ''stop''))]]),
        (js ''usage'',
           JObj [(js ''prompt_tokens'', JNum (- 1)),
                 (js ''completion_tokens'', JNum (- 1)),
                 (js ''total_tokens'', JNum (- 1))])])"
proof -
  have h2: "\<not> truthy (get_prop (text_event (js ''Hello'')) (js ''error''))"
    and h3: "opt_prop (opt_index (get_prop (text_event (js ''Hello'')) (js ''candidates'')) 0) (js ''content'')
       = JObj [(js ''parts'', JArr [JObj [(js ''text'', JStr (js ''Hello''))]])]"
    and h4: "truthy (JObj [(js ''parts'', JArr [JObj [(js ''text'', JStr (js ''Hello''))]])])"
    by (simp_all add: text_event_def opt_prop_def opt_index_def js_def)
  have d: "decimal 1700000000000 = js ''1700000000000''"
    by (simp add: decimal.simps js_def)
  from completion_from_first_candidate [OF h2 h3 h4, of 1700000000000 1700000000001
      "JStr (js ''gemini-pro'')"]
  show ?thesis
    using h2 h3 h4
    by (simp add: d) (simp add: js_or_def opt_prop_def opt_index_def js_def)
qed

text \<open>
  Claim C7 as stated fails in two ways. A response without error whose second candidate
  has a content field, and whose first has none, is answered with an error envelope; and
  a response whose first candidate generated the text \<^verbatim>\<open>Hello\<close> in the two parts
  \<^verbatim>\<open>Hel\<close> and \<^verbatim>\<open>lo\<close> is answered with the content \<^verbatim>\<open>Hel\<close>, not with the full text.
\<close>

theorem first_candidate_first_part_only:
  "convertGoogleToOpenAI 1700000000000 1700000000001
     (JObj [(js ''candidates'',
             JArr [JObj [],
                   JObj [(js ''content'',
                          JObj [(js ''parts'', JArr [JObj [(js ''text'', JStr (js ''Hello''))]])])]])])
     (JStr (js ''gemini-pro''))
   = Inr (JObj [(js ''error'',
                 JObj [(js ''message'', JStr (js ''No content generated'')),
                       (js ''type'', JStr (js ''invalid_response_error''))])])
   \<and> convertGoogleToOpenAI 1700000000000 1700000000001
     (JObj [(js ''candidates'',
             JArr [JObj [(js ''content'',
                          JObj [(js ''parts'', JArr [JObj [(js ''text'', JStr (js ''Hel''))],
                                                    JObj [(js ''text'', JStr (js ''lo''))]])])]])])
     (JStr (js ''gemini-pro''))
   = Inr (JObj
       [(js ''id'', JStr (js ''chatcmpl-1700000000000'')),
        (js ''object'', JStr (js ''chat.completion'')),
        (js ''created'', JNum (1700000000001 / 1000)),
        (js ''model'', JStr (js ''gemini-pro'')),
        (js ''choices'',
           JArr [JObj [(js ''index'', JNum 0),
                       (js ''message'',
                          JObj [(js ''role'', JStr (js ''assistant'')),
                                (js ''content'', JStr (js ''Hel''))]),
                       (js ''finish_reason'', JStr (js ''stop''))]]),
        (js ''usage'',
           JObj [(js ''prompt_tokens'', JNum (- 1)),
                 (js ''completion_tokens'', JNum (- 1)),
                 (js ''total_tokens'', JNum (- 1))])])
   \<and> js ''Hel'' \<noteq> js ''Hel'' @ js ''lo''"
proof -
  have d: "decimal 1700000000000 = js ''1700000000000''"
    by (simp add: decimal.simps js_def)
  show ?thesis
    by (simp add: convertGoogleToOpenAI_def opt_prop_def opt_index_def js_or_def d)
       (simp add: js_def)
qed

text \<open>
  Claim C8. A response with a truthy \<^verbatim>\<open>error\<close> (an error object) is translated into
  an envelope with that error's message, the type \<^verbatim>\<open>invalid_request_error\<close> and that
  error's code, without a \<^verbatim>\<open>choices\<close> field. A response without error whose first
  candidate has no truthy content is translated into an envelope of the type
  \<^verbatim>\<open>invalid_response_error\<close>, which differs from the first.
\<close>

theorem error_envelopes:
  "(truthy (get_prop googleResponse (js ''error'')) \<longrightarrow>
      convertGoogleToOpenAI t1 t2 googleResponse model =
        Inr (JObj [(js ''error'',
               JObj [(js ''message'', get_prop (get_prop googleResponse (js ''error'')) (js ''message'')),
                     (js ''type'', JStr (js ''invalid_request_error'')),
                     (js ''code'', get_prop (get_prop googleResponse (js ''error'')) (js ''code''))])])
      \<and> get_prop (JObj [(js ''error'',
               JObj [(js ''message'', get_prop (get_prop googleResponse (js ''error'')) (js ''message'')),
                     (js ''type'', JStr (js ''invalid_request_error'')),
                     (js ''code'', get_prop (get_prop googleResponse (js ''error'')) (js ''code''))])])
            (js ''choices'') = JUndefined)
   \<and> (\<not> nullish googleResponse \<and> \<not> truthy (get_prop googleResponse (js ''error''))
        \<and> \<not> truthy (opt_prop (opt_index (get_prop googleResponse (js ''candidates'')) 0)
                       (js ''content'')) \<longrightarrow>
      convertGoogleToOpenAI t1 t2 googleResponse model =
        Inr (JObj [(js ''error'',
               JObj [(js ''message'', JStr (js ''No content generated'')),
                     (js ''type'', JStr (js ''invalid_response_error''))])]))
   \<and> js ''invalid_request_error'' \<noteq> js ''invalid_response_error''"
proof -
  have n: "\<not> nullish googleResponse" if "truthy (get_prop googleResponse (js ''error''))"
    using that by (cases googleResponse) simp_all
  have c: "get_prop (JObj [(js ''error'', e)]) (js ''choices'') = JUndefined" for e
    by (simp add: js_def)
  have t: "js ''invalid_request_error'' \<noteq> js ''invalid_response_error''"
    by (simp add: js_def)
  show ?thesis
    using n c t by (auto simp: convertGoogleToOpenAI_def Let_def)
qed

text \<open>
  An instance: the error \<^verbatim>\<open>bad key\<close> with code 400, and a response with no candidate.
\<close>

theorem error_envelopes_witness:
  "truthy (get_prop (JObj [(js ''error'', JObj [(js ''message'', JStr (js ''bad key'')),
                                               (js ''code'', JNum 400)])]) (js ''error''))
   \<and> convertGoogleToOpenAI 1700000000000 1700000000001
        (JObj [(js ''error'', JObj [(js ''message'', JStr (js ''bad key'')), (js ''code'', JNum 400)])])
        (JStr (js ''gemini-pro''))
      = Inr (JObj [(js ''error'',
               JObj [(js ''message'', JStr (js ''bad key'')),
                     (js ''type'', JStr (js ''invalid_request_error'')),
                     (js ''code'', JNum 400)])])
   \<and> \<not> nullish (JObj [(js ''candidates'', JArr [])])
   \<and> \<not> truthy (get_prop (JObj [(js ''candidates'', JArr [])]) (js ''error''))
   \<and> \<not> truthy (opt_prop (opt_index (get_prop (JObj [(js ''candidates'', JArr [])])
                   (js ''candidates'')) 0) (js ''content''))
   \<and> convertGoogleToOpenAI 1700000000000 1700000000001 (JObj [(js ''candidates'', JArr [])])
        (JStr (js ''gemini-pro''))
      = Inr (JObj [(js ''error'',
               JObj [(js ''message'', JStr (js ''No content generated'')),
                     (js ''type'', JStr (js ''invalid_response_error''))])])"
proof -
  have h1: "truthy (get_prop (JObj [(js ''error'', JObj [(js ''message'', JStr (js ''bad key'')),
                                               (js ''code'', JNum 400)])]) (js ''error''))"
    by (simp add: js_def)
  have h2: "\<not> nullish (JObj [(js ''candidates'', JArr [])])"
    "\<not> truthy (get_prop (JObj [(js ''candidates'', JArr [])]) (js ''error''))"
    "\<not> truthy (opt_prop (opt_index (get_prop (JObj [(js ''candidates'', JArr [])])
                   (js ''candidates'')) 0) (js ''content''))"
    by (simp_all add: js_def opt_prop_def opt_index_def)
  have g: "get_prop (JObj [(js ''error'', JObj [(js ''message'', JStr (js ''bad key'')),
                                               (js ''code'', JNum 400)])]) (js ''error'')
      = JObj [(js ''message'', JStr (js ''bad key'')), (js ''code'', JNum 400)]"
    "get_prop (JObj [(js ''message'', JStr (js ''bad key'')), (js ''code'', JNum 400)]) (js ''message'')
      = JStr (js ''bad key'')"
    "get_prop (JObj [(js ''message'', JStr (js ''bad key'')), (js ''code'', JNum 400)]) (js ''code'')
      = JNum 400"
    by (simp_all add: js_def)
  from error_envelopes [of "JObj [(js ''error'', JObj [(js ''message'', JStr (js ''bad key'')),
        (js ''code'', JNum 400)])]" 1700000000000 1700000000001 "JStr (js ''gemini-pro'')"]
    error_envelopes [of "JObj [(js ''candidates'', JArr [])]" 1700000000000 1700000000001
        "JStr (js ''gemini-pro'')"]
  show ?thesis
    using h1 h2 by (simp add: g) (simp add: js_def opt_prop_def opt_index_def)
qed

text \<open>
  Claim C9. A parsed event whose extracted text is the empty string is treated like one
  whose text is absent: \<^verbatim>\<open>processLine\<close> writes nothing and reads no clock.
\<close>

theorem empty_text_no_event:
  assumes "startsWith (js ''data: '') line" and "drop 6 line \<noteq> js ''[DONE]''"
    and "JSON_parse rt (drop 6 line) = Some g" and "first_part_text g = Inr content"
    and "content = JStr [] \<or> content = JUndefined"
  shows "processLine rt model line fx =
           (if DEBUG rt then console_out (LogProcessingLine line) fx else fx)
       \<and> written (processLine rt model line fx) = written fx
       \<and> clock (processLine rt model line fx) = clock fx"
proof -
  from assms(5) have "\<not> truthy content" by auto
  then show ?thesis
    by (simp add: processLine_parsed [OF assms(1-4)] console_out_def)
qed

text \<open>
  An instance: the event whose text is the empty string.
\<close>

theorem empty_text_no_event_witness:
  "startsWith (js ''data: '') (sse_line empty_text_document)
   \<and> drop 6 (sse_line empty_text_document) \<noteq> js ''[DONE]''
   \<and> JSON_parse sample_runtime (drop 6 (sse_line empty_text_document)) = Some (text_event [])
   \<and> first_part_text (text_event []) = Inr (JStr [])
   \<and> processLine sample_runtime (JStr (js ''gemini-pro'')) (sse_line empty_text_document) no_effects
       = no_effects
   \<and> written (processLine sample_runtime (JStr (js ''gemini-pro'')) (sse_line empty_text_document)
        no_effects) = []"
proof -
  have h1: "startsWith (js ''data: '') (sse_line empty_text_document)"
    and h2: "drop 6 (sse_line empty_text_document) \<noteq> js ''[DONE]''"
    and h3: "JSON_parse sample_runtime (drop 6 (sse_line empty_text_document)) = Some (text_event [])"
    and h4: "first_part_text (text_event []) = Inr (JStr [])"
    by (simp_all add: sse_line_facts sample_document_facts first_part_text_event)
  have h5: "JStr [] = JStr [] \<or> JStr [] = JUndefined" by simp
  from empty_text_no_event [OF h1 h2 h3 h4 h5, of "JStr (js ''gemini-pro'')" no_effects]
  show ?thesis
    using h1 h2 h3 h4 by (simp add: sample_runtime_def no_effects_def)
qed

text \<open>
  Claim C10. When a read is rejected after the chunks \<open>cs\<close>, the response is ended
  with the events written while \<open>cs\<close> were read, which are those of the non-blank
  complete lines received: no termination event is appended and the unfinished line in the
  buffer is not processed; the error is logged.
\<close>

theorem transport_error_no_terminator:
  "stream_response rt step d model (map Value cs @ Rejected # rest) =
     res_end (console_out ErrStreamProcessing
       (process_lines (processLine rt model)
          (filter nonblank (complete_lines (decoded step d cs))) no_effects))
   \<and> written (stream_response rt step d model (map Value cs @ Rejected # rest)) =
       written (process_lines (processLine rt model)
          (filter nonblank (complete_lines (decoded step d cs))) no_effects)
   \<and> ended (stream_response rt step d model (map Value cs @ Rejected # rest))
   \<and> stream_response rt step d model (map Value cs @ later) =
       read_loop (processLine rt model) step later (decoder_after step d cs)
         (remainder (decoded step d cs))
         (process_lines (processLine rt model)
            (filter nonblank (complete_lines (decoded step d cs))) no_effects)"
  by (simp add: stream_response_def read_loop_rejected read_loop_prefix res_end_def console_out_def)

text \<open>
  An instance: one content event and the beginning of another, then the read fails.
\<close>

theorem transport_error_no_terminator_witness:
  "stream_response sample_runtime ascii_step () (JStr (js ''gemini-pro''))
      (map Value [bytes (''data: '' @ hi_document @ ''\<newline>data: {'')] @ Rejected # [])
     = \<lparr>written = [Data (openAIChunk 1700000000000 1700000000001 (JStr (js ''gemini-pro''))
                        (JStr (js ''Hi'')))],
        console = [ErrStreamProcessing], clock = 2, ended = True\<rparr>"
proof -
  have c: "complete_lines (decoded ascii_step () [bytes (''data: '' @ hi_document @ ''\<newline>data: {'')])
      = [sse_line hi_document]"
    using decoded_ascii [of "[''data: '' @ hi_document @ ''\<newline>data: {'']"]
    by (simp add: complete_lines_def js_def newline_def sample_defs)
  have nb: "nonblank (sse_line hi_document)"
    by (simp add: startsWith_data_nonblank sse_line_facts)
  have "stream_response sample_runtime ascii_step () (JStr (js ''gemini-pro''))
      (map Value [bytes (''data: '' @ hi_document @ ''\<newline>data: {'')] @ Rejected # [])
     = res_end (console_out ErrStreamProcessing
       (process_lines (processLine sample_runtime (JStr (js ''gemini-pro'')))
          (filter nonblank (complete_lines (decoded ascii_step ()
             [bytes (''data: '' @ hi_document @ ''\<newline>data: {'')]))) no_effects))"
    using transport_error_no_terminator [of sample_runtime ascii_step "()" "JStr (js ''gemini-pro'')"
      "[bytes (''data: '' @ hi_document @ ''\<newline>data: {'')]" "[]"]
    by (rule conjunct1)
  also have "\<dots> = \<lparr>written = [Data (openAIChunk 1700000000000 1700000000001 (JStr (js ''gemini-pro''))
                        (JStr (js ''Hi'')))],
        console = [ErrStreamProcessing], clock = 2, ended = True\<rparr>"
    unfolding c
    by (simp add: nb processLine_sample_hi res_write_def res_end_def console_out_def no_effects_def)
  finally show ?thesis .
qed

end
